theory Spec2Isabelle
  imports Complex_Main
begin

section \<open>JavaScript values and rows\<close>

text \<open>
  The adapter \<^verbatim>\<open>LanceVectorDatabase\<close> (lancedb-vectordb.ts) handles rows of type \<^verbatim>\<open>any\<close>.
  A value is one of the JavaScript kinds the code distinguishes with \<^verbatim>\<open>typeof\<close>,
  \<^verbatim>\<open>Array.isArray\<close> and truthiness. Numbers are read as reals: the adapter does no
  arithmetic on them, it only copies and tests them. Strings are lists of code units below 256.
\<close>

datatype jsval =
    JUndefined
  | JNull
  | JBool bool
  | JNumber real
  | JString string
  | JArray "jsval list"
  | JObject "(string \<times> jsval) list"

text \<open>Truthiness, as in \<^verbatim>\<open>row.metadata ? ... : ...\<close>.\<close>

fun truthy :: "jsval \<Rightarrow> bool" where
  "truthy JUndefined = False"
| "truthy JNull = False"
| "truthy (JBool b) = b"
| "truthy (JNumber x) = (x \<noteq> 0)"
| "truthy (JString s) = (s \<noteq> [])"
| "truthy (JArray xs) = True"
| "truthy (JObject kvs) = True"

text \<open>A row is an object; reading a missing property gives \<^verbatim>\<open>undefined\<close>.\<close>

type_synonym row = "(string \<times> jsval) list"

definition get :: "row \<Rightarrow> string \<Rightarrow> jsval" where
  "get r k = (case map_of r k of None \<Rightarrow> JUndefined | Some v \<Rightarrow> v)"

text \<open>What \<^verbatim>\<open>await q.limit(k).toArray()\<close> comes to: it throws, or it yields a value
  that \<^verbatim>\<open>Array.isArray\<close> rejects, or it yields an array of rows.\<close>

datatype answer = Thrown | NotAnArray | Rows "row list"

datatype exn = LoadFailed | MkdirFailed | ConnectFailed | CreateTableFailed | BackendError | TypeError

text \<open>The three call shapes \<^verbatim>\<open>createHybridCollection\<close> tries for the full-text index.\<close>

datatype fts_call = FtsConfig | FtsDirect | FtsType

text \<open>Every call the adapter makes on the LanceDB module, the connection or a table.\<close>

datatype call =
    Import
  | Connect
  | OpenTable string
  | CreateTable string
  | CreateIndex string fts_call
  | DropTable string
  | RmDir string
  | SearchHybridObject string
  | SearchHybridChain string
  | SearchDense string
  | SearchAll string nat
  | TableDelete string

section \<open>The environment: JavaScript runtime and LanceDB\<close>

text \<open>
  The LanceDB module is imported dynamically and typed \<^verbatim>\<open>any\<close>; it is not part of the
  repository. Its behaviour is a parameter of the model: which calls exist, which throw, and
  what the search calls answer for a query, a limit and the rows the table holds.
  \<^verbatim>\<open>JSON.parse\<close> is a parameter as well (\<open>None\<close> when it throws).
  \<^item> \<open>import_ok\<close>, \<open>mkdir_ok\<close>, \<open>connect_ok\<close>: whether \<^verbatim>\<open>import('@lancedb/lancedb')\<close>,
    \<^verbatim>\<open>fs.mkdirSync\<close> and \<^verbatim>\<open>lancedb.connect\<close> succeed;
  \<^item> \<open>createTable_ok\<close>: whether \<^verbatim>\<open>db.createTable(name, rows)\<close> succeeds;
  \<^item> \<open>has_createIndex\<close>, \<open>has_dropTable\<close>, \<open>has_search\<close>, \<open>has_delete\<close>: the
    \<^verbatim>\<open>typeof ... === 'function'\<close> tests;
  \<^item> \<open>createIndex_ok\<close>, \<open>dropTable_ok\<close>: whether the call succeeds;
  \<^item> \<open>table_is_dir\<close>: whether a table lives in the directory \<^verbatim>\<open>dbPath/name\<close>;
  \<^item> \<open>search_hybrid_object\<close>, \<open>search_hybrid_chain\<close>, \<open>search_dense\<close>: what
    \<^verbatim>\<open>table.search({ vector, text, queryType: 'hybrid' }).limit(k).toArray()\<close>,
    \<^verbatim>\<open>table.search(vector).text?.(text)?.hybrid?.()?.limit(k).toArray()\<close> and
    \<^verbatim>\<open>table.search(vector).limit(k).toArray()\<close> come to on the stored rows;
  \<^item> \<open>search_all\<close>: what \<^verbatim>\<open>table.search().limit(k).toArray()\<close> comes to;
  \<^item> \<open>table_delete\<close>: the rows left by \<^verbatim>\<open>table.delete(predicate)\<close>, \<open>None\<close> when it throws.
\<close>

record env =
  JSON_parse :: "jsval \<Rightarrow> jsval option"
  import_ok :: bool
  mkdir_ok :: bool
  connect_ok :: bool
  createTable_ok :: "string \<Rightarrow> row list \<Rightarrow> bool"
  has_createIndex :: bool
  createIndex_ok :: "fts_call \<Rightarrow> bool"
  has_dropTable :: bool
  dropTable_ok :: bool
  table_is_dir :: bool
  has_search :: bool
  search_hybrid_object :: "real list \<Rightarrow> string \<Rightarrow> nat \<Rightarrow> row list \<Rightarrow> answer"
  search_hybrid_chain :: "real list \<Rightarrow> string \<Rightarrow> nat \<Rightarrow> row list \<Rightarrow> answer"
  search_dense :: "real list \<Rightarrow> nat \<Rightarrow> row list \<Rightarrow> answer"
  search_all :: "nat \<Rightarrow> row list \<Rightarrow> answer"
  has_delete :: bool
  table_delete :: "(row \<Rightarrow> bool) \<Rightarrow> row list \<Rightarrow> row list option"

text \<open>
  The state: the adapter's two private fields \<^verbatim>\<open>this.db\<close> and \<^verbatim>\<open>this.lancedb\<close>
  (set or null; \<^verbatim>\<open>this.config\<close> never changes), the tables on disk, the tables that
  have a full-text index, and the calls made so far.
\<close>

record world =
  db :: bool
  lancedb :: bool
  tables :: "string \<rightharpoonup> row list"
  fts :: "string set"
  calls :: "call list"

definition called :: "call \<Rightarrow> world \<Rightarrow> world" where
  "called c w = w\<lparr>calls := calls w @ [c]\<rparr>"

definition rows_of :: "world \<Rightarrow> string \<Rightarrow> row list" where
  "rows_of w name = (case tables w name of None \<Rightarrow> [] | Some rs \<Rightarrow> rs)"

section \<open>Search results\<close>

record VectorDocument =
  doc_id :: jsval
  vector :: "real list"
  content :: jsval
  relativePath :: jsval
  startLine :: jsval
  endLine :: jsval
  fileExtension :: jsval
  metadata :: jsval

record VectorSearchResult =
  document :: VectorDocument
  score :: real

record SearchOptions =
  topK :: "nat option"

datatype request_data = Dense "real list" | Text string

record HybridSearchRequest =
  req_data :: request_data
  req_limit :: "nat option"

record HybridSearchOptions =
  opt_limit :: "nat option"

section \<open>The adapter\<close>

subsection \<open>fromRow\<close>

text \<open>
  \<^verbatim>\<open>
  let metadata = {};
  try { metadata = row.metadata ? JSON.parse(row.metadata) : {}; } catch { metadata = {}; }
  return { document: { id: row.id, vector: fallbackVector, content: row.content, ... , metadata },
           score: typeof row.score === 'number' ? row.score : score };
  \<close>
\<close>

definition parse_metadata :: "env \<Rightarrow> row \<Rightarrow> jsval" where
  "parse_metadata E r =
     (if truthy (get r ''metadata'')
      then (case JSON_parse E (get r ''metadata'') of
              Some m \<Rightarrow> m
            | None \<Rightarrow> JObject [])
      else JObject [])"

definition fromRow :: "env \<Rightarrow> row \<Rightarrow> real \<Rightarrow> real list \<Rightarrow> VectorSearchResult" where
  "fromRow E r s fallbackVector =
     \<lparr> document =
         \<lparr> doc_id = get r ''id'',
           vector = fallbackVector,
           content = get r ''content'',
           relativePath = get r ''relativePath'',
           startLine = get r ''startLine'',
           endLine = get r ''endLine'',
           fileExtension = get r ''fileExtension'',
           metadata = parse_metadata E r \<rparr>,
       score = (case get r ''score'' of JNumber x \<Rightarrow> x | _ \<Rightarrow> s) \<rparr>"

subsection \<open>ensureClient and openOrCreateTable\<close>

text \<open>
  \<^verbatim>\<open>
  if (this.db) return;
  if (!this.lancedb) {
    this.lancedb = await import('@lancedb/lancedb').catch(() => null);
    if (!this.lancedb) throw new Error(...);
  }
  fs.mkdirSync(this.config.dbPath, { recursive: true });
  this.db = await this.lancedb.connect(this.config.dbPath);
  \<close>
\<close>

definition ensureClient :: "env \<Rightarrow> world \<Rightarrow> (exn + unit) \<times> world" where
  "ensureClient E w =
     (if db w then (Inr (), w)
      else if \<not> lancedb w \<and> \<not> import_ok E then (Inl LoadFailed, called Import w)
      else
        (let w1 = (if lancedb w then w else (called Import w)\<lparr>lancedb := True\<rparr>) in
         if \<not> mkdir_ok E then (Inl MkdirFailed, w1)
         else if \<not> connect_ok E then (Inl ConnectFailed, called Connect w1)
         else (Inr (), (called Connect w1)\<lparr>db := True\<rparr>)))"

text \<open>
  \<^verbatim>\<open>
  await this.ensureClient();
  try { return await this.db.openTable(collectionName); }
  catch (e) { return await this.db.createTable(collectionName, rows); }
  \<close>
  \<^verbatim>\<open>openTable\<close> succeeds on a table that exists. The handle returned is the table's name.
\<close>

definition openOrCreateTable :: "env \<Rightarrow> string \<Rightarrow> row list \<Rightarrow> world \<Rightarrow> (exn + string) \<times> world" where
  "openOrCreateTable E name initialRows w =
     (case ensureClient E w of
        (Inl e, w1) \<Rightarrow> (Inl e, w1)
      | (Inr u, w1) \<Rightarrow>
          (let w2 = called (OpenTable name) w1 in
           if name \<in> dom (tables w2) then (Inr name, w2)
           else
             (let w3 = called (CreateTable name) w2 in
              if createTable_ok E name initialRows
              then (Inr name, w3\<lparr>tables := (tables w3)(name \<mapsto> initialRows)\<rparr>)
              else (Inl CreateTableFailed, w3))))"

subsection \<open>createHybridCollection\<close>

text \<open>
  \<^verbatim>\<open>
  const table = await this.openOrCreateTable(collectionName, []);
  try {
    if (typeof table.createIndex === 'function') {
      try { await table.createIndex('content', { config: this.lancedb.Index.fts() }); }
      catch { try { await table.createIndex('content', this.lancedb.Index.fts()); }
              catch { await table.createIndex('content', { type: 'fts' }); } }
    }
  } catch { /* ignore index creation failure, hybrid will still fall back to dense */ }
  \<close>
\<close>

definition try_createIndex :: "env \<Rightarrow> string \<Rightarrow> fts_call \<Rightarrow> world \<Rightarrow> bool \<times> world" where
  "try_createIndex E name c w =
     (let w1 = called (CreateIndex name c) w in
      if createIndex_ok E c then (True, w1\<lparr>fts := insert name (fts w1)\<rparr>) else (False, w1))"

definition createHybridCollection :: "env \<Rightarrow> string \<Rightarrow> world \<Rightarrow> (exn + unit) \<times> world" where
  "createHybridCollection E name w =
     (case openOrCreateTable E name [] w of
        (Inl e, w1) \<Rightarrow> (Inl e, w1)
      | (Inr table, w1) \<Rightarrow>
          (if has_createIndex E then
             (case try_createIndex E table FtsConfig w1 of
                (True, w2) \<Rightarrow> (Inr (), w2)
              | (False, w2) \<Rightarrow>
                  (case try_createIndex E table FtsDirect w2 of
                     (True, w3) \<Rightarrow> (Inr (), w3)
                   | (False, w3) \<Rightarrow> (Inr (), snd (try_createIndex E table FtsType w3))))
           else (Inr (), w1)))"

subsection \<open>dropCollection\<close>

text \<open>
  \<^verbatim>\<open>
  await this.ensureClient();
  if (this.db && typeof this.db.dropTable === 'function') {
    try { await this.db.dropTable(collectionName); return; } catch { }
  }
  const tableDir = this.getTablePath(collectionName);
  if (fs.existsSync(tableDir)) fs.rmSync(tableDir, { recursive: true, force: true });
  \<close>
  \<open>table_is_dir\<close> says whether a table lives in the directory \<^verbatim>\<open>dbPath/name\<close>, so that
  removing the directory removes the table.
\<close>

definition dropCollection :: "env \<Rightarrow> string \<Rightarrow> world \<Rightarrow> (exn + unit) \<times> world" where
  "dropCollection E name w =
     (case ensureClient E w of
        (Inl e, w1) \<Rightarrow> (Inl e, w1)
      | (Inr u, w1) \<Rightarrow>
          (if has_dropTable E \<and> dropTable_ok E
           then (Inr (), (called (DropTable name) w1)
                   \<lparr>tables := (tables w1)(name := None), fts := fts w1 - {name}\<rparr>)
           else
             (let w2 = (if has_dropTable E then called (DropTable name) w1 else w1) in
              if table_is_dir E \<and> name \<in> dom (tables w2)
              then (Inr (), (called (RmDir name) w2)
                      \<lparr>tables := (tables w2)(name := None), fts := fts w2 - {name}\<rparr>)
              else (Inr (), w2))))"

subsection \<open>search\<close>

text \<open>
  \<^verbatim>\<open>
  const table = await this.openOrCreateTable(collectionName, []);
  const topK = options?.topK ?? 10;
  let results = [];
  try { const q = table.search(queryVector);
        const arr = await q.limit(topK).toArray();
        results = Array.isArray(arr) ? arr : []; }
  catch { results = []; }
  return results.map(r => this.fromRow(r, 0, queryVector));
  \<close>
\<close>

definition search_topK :: "SearchOptions option \<Rightarrow> nat" where
  "search_topK options =
     (case options of
        None \<Rightarrow> 10
      | Some opts \<Rightarrow> (case topK opts of None \<Rightarrow> 10 | Some k \<Rightarrow> k))"

definition array_or_empty :: "answer \<Rightarrow> row list" where
  "array_or_empty a = (case a of Rows rs \<Rightarrow> rs | NotAnArray \<Rightarrow> [] | Thrown \<Rightarrow> [])"

definition dense_results :: "env \<Rightarrow> real list \<Rightarrow> nat \<Rightarrow> row list \<Rightarrow> row list" where
  "dense_results E queryVector k stored =
     (if has_search E then array_or_empty (search_dense E queryVector k stored) else [])"

definition search ::
  "env \<Rightarrow> string \<Rightarrow> real list \<Rightarrow> SearchOptions option \<Rightarrow> world
     \<Rightarrow> (exn + VectorSearchResult list) \<times> world" where
  "search E name queryVector options w =
     (case openOrCreateTable E name [] w of
        (Inl e, w1) \<Rightarrow> (Inl e, w1)
      | (Inr table, w1) \<Rightarrow>
          (let k = search_topK options;
               w2 = (if has_search E then called (SearchDense table) w1 else w1);
               results = dense_results E queryVector k (rows_of w1 table)
           in (Inr (map (\<lambda>r. fromRow E r 0 queryVector) results), w2)))"

subsection \<open>hybridSearch\<close>

text \<open>
  \<^verbatim>\<open>
  const topK = options?.limit ?? (searchRequests[0]?.limit || 10);
  const denseReq = searchRequests.find(r => Array.isArray(r.data));
  const textReq = searchRequests.find(r => typeof r.data === 'string');
  const vector = denseReq && Array.isArray(denseReq.data) ? denseReq.data : [];
  const text = (textReq && typeof textReq.data === 'string') ? textReq.data : '';
  \<close>
\<close>

definition hybrid_topK :: "HybridSearchRequest list \<Rightarrow> HybridSearchOptions option \<Rightarrow> nat" where
  "hybrid_topK searchRequests options =
     (case (case options of None \<Rightarrow> None | Some opts \<Rightarrow> opt_limit opts) of
        Some k \<Rightarrow> k
      | None \<Rightarrow>
          (case (case searchRequests of [] \<Rightarrow> None | r # rest \<Rightarrow> req_limit r) of
             None \<Rightarrow> 10
           | Some k \<Rightarrow> (if k = 0 then 10 else k)))"

definition is_dense :: "HybridSearchRequest \<Rightarrow> bool" where
  "is_dense r = (case req_data r of Dense v \<Rightarrow> True | Text t \<Rightarrow> False)"

definition is_text :: "HybridSearchRequest \<Rightarrow> bool" where
  "is_text r = (case req_data r of Dense v \<Rightarrow> False | Text t \<Rightarrow> True)"

definition dense_vector :: "HybridSearchRequest list \<Rightarrow> real list" where
  "dense_vector searchRequests =
     (case find is_dense searchRequests of
        None \<Rightarrow> []
      | Some r \<Rightarrow> (case req_data r of Dense v \<Rightarrow> v | Text t \<Rightarrow> []))"

definition query_text :: "HybridSearchRequest list \<Rightarrow> string" where
  "query_text searchRequests =
     (case find is_text searchRequests of
        None \<Rightarrow> []
      | Some r \<Rightarrow> (case req_data r of Dense v \<Rightarrow> [] | Text t \<Rightarrow> t))"

text \<open>
  The outer \<^verbatim>\<open>try\<close> of \<^verbatim>\<open>hybridSearch\<close>: variant A passes one object
  \<^verbatim>\<open>{ vector, text, queryType: 'hybrid' }\<close>, variant B chains
  \<^verbatim>\<open>table.search(vector).text?.(text)?.hybrid?.()?.limit(topK).toArray()\<close>, variant C is
  dense only. A variant is tried when the one before it throws. The optional chain of
  variant B yields \<^verbatim>\<open>undefined\<close> without throwing when a method is missing; that is
  the answer \<open>NotAnArray\<close>. The result is \<open>None\<close> when variant C throws as well and the
  outer \<^verbatim>\<open>catch\<close> is reached.
\<close>

definition hybrid_cascade ::
  "env \<Rightarrow> string \<Rightarrow> real list \<Rightarrow> string \<Rightarrow> nat \<Rightarrow> world \<Rightarrow> row list option \<times> world" where
  "hybrid_cascade E table v t k w =
     (if \<not> has_search E then (Some [], w)
      else
        (let stored = rows_of w table; wA = called (SearchHybridObject table) w in
         case search_hybrid_object E v t k stored of
           Rows rs \<Rightarrow> (Some rs, wA)
         | NotAnArray \<Rightarrow> (Some [], wA)
         | Thrown \<Rightarrow>
             (let wB = called (SearchHybridChain table) wA in
              case search_hybrid_chain E v t k stored of
                Rows rs \<Rightarrow> (Some rs, wB)
              | NotAnArray \<Rightarrow> (Some [], wB)
              | Thrown \<Rightarrow>
                  (let wC = called (SearchDense table) wB in
                   case search_dense E v k stored of
                     Rows rs \<Rightarrow> (Some rs, wC)
                   | NotAnArray \<Rightarrow> (Some [], wC)
                   | Thrown \<Rightarrow> (None, wC)))))"

text \<open>
  \<^verbatim>\<open>
  } catch {
    const dense = await this.search(collectionName, vector, { topK });
    return dense.map(r => ({ document: r.document, score: r.score }));
  }
  return results.map(r => ({ document: this.fromRow(r, 0, vector).document,
                             score: typeof r.score === 'number' ? r.score : 0 }));
  \<close>
\<close>

definition hybridSearch ::
  "env \<Rightarrow> string \<Rightarrow> HybridSearchRequest list \<Rightarrow> HybridSearchOptions option \<Rightarrow> world
     \<Rightarrow> (exn + VectorSearchResult list) \<times> world" where
  "hybridSearch E name searchRequests options w =
     (case openOrCreateTable E name [] w of
        (Inl e, w1) \<Rightarrow> (Inl e, w1)
      | (Inr table, w1) \<Rightarrow>
          (let k = hybrid_topK searchRequests options;
               v = dense_vector searchRequests;
               t = query_text searchRequests
           in case hybrid_cascade E table v t k w1 of
                (Some results, w2) \<Rightarrow>
                  (Inr (map (\<lambda>r. \<lparr> document = document (fromRow E r 0 v),
                                     score = (case get r ''score'' of JNumber x \<Rightarrow> x | _ \<Rightarrow> 0) \<rparr>)
                          results), w2)
              | (None, w2) \<Rightarrow>
                  (case search E name v (Some \<lparr> topK = Some k \<rparr>) w2 of
                     (Inl e, w3) \<Rightarrow> (Inl e, w3)
                   | (Inr dense, w3) \<Rightarrow>
                       (Inr (map (\<lambda>r. \<lparr> document = document r, score = score r \<rparr>) dense), w3))))"

subsection \<open>delete\<close>

text \<open>
  \<^verbatim>\<open>
  if (!ids || ids.length === 0) return;
  const table = await this.openOrCreateTable(collectionName, []);
  if (typeof table.delete === 'function') {
    try { await table.delete((row) => ids.includes(row.id)); return; } catch { }
  }
  const all = await table.search().limit(1000000).toArray();
  const remaining = all.filter(r => !ids.includes(r.id));
  await this.dropCollection(collectionName);
  await this.openOrCreateTable(collectionName, remaining);
  \<close>
\<close>

definition ids_include :: "string list \<Rightarrow> jsval \<Rightarrow> bool" where
  "ids_include ids v = (case v of JString s \<Rightarrow> s \<in> set ids | _ \<Rightarrow> False)"

definition delete_rewrite :: "env \<Rightarrow> string \<Rightarrow> string list \<Rightarrow> world \<Rightarrow> (exn + unit) \<times> world" where
  "delete_rewrite E name ids w =
     (if \<not> has_search E then (Inl TypeError, w)
      else
        (let w1 = called (SearchAll name 1000000) w in
         case search_all E 1000000 (rows_of w name) of
           Thrown \<Rightarrow> (Inl BackendError, w1)
         | NotAnArray \<Rightarrow> (Inl TypeError, w1)
         | Rows all \<Rightarrow>
             (let remaining = filter (\<lambda>r. \<not> ids_include ids (get r ''id'')) all in
              case dropCollection E name w1 of
                (Inl e, w2) \<Rightarrow> (Inl e, w2)
              | (Inr u, w2) \<Rightarrow>
                  (case openOrCreateTable E name remaining w2 of
                     (Inl e, w3) \<Rightarrow> (Inl e, w3)
                   | (Inr table, w3) \<Rightarrow> (Inr (), w3)))))"

definition delete :: "env \<Rightarrow> string \<Rightarrow> string list \<Rightarrow> world \<Rightarrow> (exn + unit) \<times> world" where
  "delete E name ids w =
     (if ids = [] then (Inr (), w)
      else
        (case openOrCreateTable E name [] w of
           (Inl e, w1) \<Rightarrow> (Inl e, w1)
         | (Inr table, w1) \<Rightarrow>
             (if has_delete E then
                (let w2 = called (TableDelete table) w1 in
                 case table_delete E (\<lambda>r. ids_include ids (get r ''id'')) (rows_of w1 table) of
                   Some kept \<Rightarrow> (Inr (), w2\<lparr>tables := (tables w2)(table \<mapsto> kept)\<rparr>)
                 | None \<Rightarrow> delete_rewrite E table ids w2)
              else delete_rewrite E table ids w1)))"

subsection \<open>query\<close>

text \<open>
  The filter is matched against \<^verbatim>\<open>/^\s*relativePath\s*==\s*"(.+)"\s*$/\<close>. Among the
  code units below 256, \<^verbatim>\<open>\s\<close> matches tab, line feed, vertical tab, form feed, carriage
  return, space and no-break space; the dot matches all but line feed and carriage return.
\<close>

definition js_space :: "char \<Rightarrow> bool" where
  "js_space c = (c = CHR 0x09 \<or> c = CHR 0x0A \<or> c = CHR 0x0B \<or> c = CHR 0x0C \<or> c = CHR 0x0D
                 \<or> c = CHR 0x20 \<or> c = CHR 0xA0)"

definition js_dot :: "char \<Rightarrow> bool" where
  "js_dot c = (c \<noteq> CHR 0x0A \<and> c \<noteq> CHR 0x0D)"

text \<open>The language of the regular expression: the strings it matches, with the text of
  its one group.\<close>

definition filter_regex :: "string \<Rightarrow> string \<Rightarrow> bool" where
  "filter_regex s g =
     (\<exists>a b c d. s = a @ ''relativePath'' @ b @ ''=='' @ c @ [CHR 0x22] @ g @ [CHR 0x22] @ d
        \<and> list_all js_space a \<and> list_all js_space b \<and> list_all js_space c \<and> list_all js_space d
        \<and> g \<noteq> [] \<and> list_all js_dot g)"

text \<open>The matcher that computes \<^verbatim>\<open>filter.match(...)\<close>: \<open>None\<close> for \<^verbatim>\<open>null\<close>, else
  the group \<^verbatim>\<open>m[1]\<close>.\<close>

fun strip_prefix :: "string \<Rightarrow> string \<Rightarrow> string option" where
  "strip_prefix [] s = Some s"
| "strip_prefix (p # ps) [] = None"
| "strip_prefix (p # ps) (c # cs) = (if p = c then strip_prefix ps cs else None)"

definition match_filter :: "string \<Rightarrow> string option" where
  "match_filter s =
     (case strip_prefix ''relativePath'' (dropWhile js_space s) of
        None \<Rightarrow> None
      | Some s1 \<Rightarrow>
          (case strip_prefix ''=='' (dropWhile js_space s1) of
             None \<Rightarrow> None
           | Some s2 \<Rightarrow>
               (case strip_prefix [CHR 0x22] (dropWhile js_space s2) of
                  None \<Rightarrow> None
                | Some s3 \<Rightarrow>
                    (case strip_prefix [CHR 0x22] (dropWhile js_space (rev s3)) of
                       None \<Rightarrow> None
                     | Some g \<Rightarrow>
                         (if g \<noteq> [] \<and> list_all js_dot g then Some (rev g) else None)))))"





section \<open>A sample environment\<close>

text \<open>
  An in-memory LanceDB for the examples: every call succeeds, tables answer a search with
  their first \<open>k\<close> rows in stored order, there is no full-text index, no hybrid search and no
  native delete. The examples vary it field by field.
\<close>

definition sample_env :: env where
  "sample_env =
     \<lparr> JSON_parse = (\<lambda>v. if v = JString ''{}'' then Some (JObject []) else None),
       import_ok = True,
       mkdir_ok = True,
       connect_ok = True,
       createTable_ok = (\<lambda>name rs. True),
       has_createIndex = True,
       createIndex_ok = (\<lambda>c. False),
       has_dropTable = True,
       dropTable_ok = True,
       table_is_dir = False,
       has_search = True,
       search_hybrid_object = (\<lambda>v t k rs. Thrown),
       search_hybrid_chain = (\<lambda>v t k rs. Thrown),
       search_dense = (\<lambda>v k rs. Rows (take k rs)),
       search_all = (\<lambda>k rs. Rows (take k rs)),
       has_delete = False,
       table_delete = (\<lambda>p rs. None) \<rparr>"

definition chunk :: "string \<Rightarrow> string \<Rightarrow> real \<Rightarrow> row" where
  "chunk i p s =
     [(''id'', JString i), (''vector'', JArray [JNumber 1, JNumber 0]),
      (''content'', JString ''code''), (''relativePath'', JString p),
      (''startLine'', JNumber 1), (''endLine'', JNumber 9),
      (''fileExtension'', JString ''.ts''), (''metadata'', JString ''{}''),
      (''score'', JNumber s)]"

definition world0 :: world where
  "world0 = \<lparr> db = False, lancedb = False, tables = Map.empty, fts = {}, calls = [] \<rparr>"

definition world1 :: "row list \<Rightarrow> world" where
  "world1 rs = \<lparr> db = True, lancedb = True, tables = [''code'' \<mapsto> rs], fts = {}, calls = [] \<rparr>"

text \<open>The same backend with native hybrid search through the one-object call shape.\<close>

definition fusion_env :: env where
  "fusion_env = sample_env\<lparr>search_hybrid_object := \<lambda>v t k rs. Rows (take k rs)\<rparr>"

definition sample_requests :: "HybridSearchRequest list" where
  "sample_requests =
     [\<lparr>req_data = Dense [1, 0], req_limit = Some 5\<rparr>,
      \<lparr>req_data = Text ''parse'', req_limit = Some 5\<rparr>]"

section \<open>Notions used to state the properties\<close>

text \<open>The score a row carries by itself: its \<^verbatim>\<open>score\<close> property when that is a number,
  else 0.\<close>

definition native_score :: "row \<Rightarrow> real" where
  "native_score r = (case get r ''score'' of JNumber x \<Rightarrow> x | _ \<Rightarrow> 0)"

text \<open>The score contract of a ranked result list: every score in the unit interval, the
  list in descending order of score.\<close>

definition score_contract :: "VectorSearchResult list \<Rightarrow> bool" where
  "score_contract rs =
     (list_all (\<lambda>r. 0 \<le> score r \<and> score r \<le> 1) rs \<and> sorted (rev (map score rs)))"

text \<open>The rows \<^verbatim>\<open>hybridSearch\<close> ends up with, as a function of what the three variants
  answer on the stored rows.\<close>

definition hybrid_rows :: "env \<Rightarrow> real list \<Rightarrow> string \<Rightarrow> nat \<Rightarrow> row list \<Rightarrow> row list" where
  "hybrid_rows E v t k stored =
     (if \<not> has_search E then []
      else (case search_hybrid_object E v t k stored of
              Rows rs \<Rightarrow> rs
            | NotAnArray \<Rightarrow> []
            | Thrown \<Rightarrow>
                (case search_hybrid_chain E v t k stored of
                   Rows rs \<Rightarrow> rs
                 | NotAnArray \<Rightarrow> []
                 | Thrown \<Rightarrow> array_or_empty (search_dense E v k stored))))"




section \<open>Auxiliary facts\<close>

lemma ensureClient_ok:
  "ensureClient E w = (Inr u, w1) \<Longrightarrow> db w1 \<and> tables w1 = tables w \<and> fts w1 = fts w"
  by (auto simp: ensureClient_def called_def Let_def split: if_splits)

lemma ensureClient_connected:
  "db w \<Longrightarrow> ensureClient E w = (Inr (), w)"
  by (simp add: ensureClient_def)

lemma openOrCreateTable_ok:
  "openOrCreateTable E n rs w = (Inr t, w1) \<Longrightarrow> t = n \<and> db w1 \<and> n \<in> dom (tables w1)"
  by (auto simp: openOrCreateTable_def called_def Let_def
      split: prod.splits sum.splits if_splits dest: ensureClient_ok)

lemma openOrCreateTable_again:
  "db w \<Longrightarrow> n \<in> dom (tables w) \<Longrightarrow>
     openOrCreateTable E n rs w = (Inr n, called (OpenTable n) w)"
  by (auto simp: openOrCreateTable_def ensureClient_connected called_def Let_def)

lemma hybrid_cascade_frame:
  "hybrid_cascade E t v txt k w = (x, w1) \<Longrightarrow>
     db w1 = db w \<and> lancedb w1 = lancedb w \<and> tables w1 = tables w \<and> fts w1 = fts w"
  by (auto simp: hybrid_cascade_def called_def Let_def split: if_splits answer.splits)

lemma search_raises_iff:
  "isl (fst (search E n qv opts w)) = isl (fst (openOrCreateTable E n [] w))"
  by (auto simp: search_def Let_def split: prod.splits sum.splits)

lemma fromRow_metadata:
  "JSON_parse E (get r ''metadata'') = None \<Longrightarrow> metadata (document (fromRow E r s v)) = JObject []"
  by (simp add: fromRow_def parse_metadata_def)


lemmas run_defs =
  search_def openOrCreateTable_def ensureClient_def called_def world1_def world0_def
  sample_env_def dense_results_def array_or_empty_def rows_of_def search_topK_def
  fromRow_def chunk_def get_def parse_metadata_def Let_def

lemma score_fromRow: "score (fromRow E r 0 v) = native_score r"
  by (simp add: fromRow_def native_score_def)

lemma called_frame [simp]:
  "db (called c w) = db w" "lancedb (called c w) = lancedb w"
  "tables (called c w) = tables w" "fts (called c w) = fts w"
  "rows_of (called c w) n = rows_of w n"
  by (simp_all add: called_def rows_of_def)

lemma search_result:
  "openOrCreateTable E n [] w = (Inr t, w1) \<Longrightarrow>
     fst (search E n qv opts w) =
       Inr (map (\<lambda>r. fromRow E r 0 qv) (dense_results E qv (search_topK opts) (rows_of w1 n)))
     \<and> tables (snd (search E n qv opts w)) = tables w1
     \<and> db (snd (search E n qv opts w)) = db w1
     \<and> lancedb (snd (search E n qv opts w)) = lancedb w1"
  by (frule openOrCreateTable_ok) (auto simp: search_def Let_def)

lemma search_error:
  "openOrCreateTable E n [] w = (Inl e, w1) \<Longrightarrow> search E n qv opts w = (Inl e, w1)"
  by (simp add: search_def)

lemma hybrid_row_is_fromRow:
  "\<lparr> document = document (fromRow E r 0 v),
     score = (case get r ''score'' of JNumber x \<Rightarrow> x | _ \<Rightarrow> 0) \<rparr> = fromRow E r 0 v"
  by (simp add: fromRow_def)

lemma hybrid_cascade_rows:
  "hybrid_cascade E t v txt k w = (Some rs, w1) \<Longrightarrow> rs = hybrid_rows E v txt k (rows_of w t)"
  by (auto simp: hybrid_cascade_def hybrid_rows_def array_or_empty_def Let_def
      split: if_splits answer.splits)

lemma hybrid_cascade_none:
  "hybrid_cascade E t v txt k w = (None, w1) \<Longrightarrow>
     hybrid_rows E v txt k (rows_of w t) = [] \<and> dense_results E v k (rows_of w t) = []"
  by (auto simp: hybrid_cascade_def hybrid_rows_def dense_results_def array_or_empty_def Let_def
      split: if_splits answer.splits)

lemma hybridSearch_result:
  assumes "openOrCreateTable E n [] w = (Inr t, w1)"
  shows "fst (hybridSearch E n reqs ho w) =
           Inr (map (\<lambda>r. fromRow E r 0 (dense_vector reqs))
                  (hybrid_rows E (dense_vector reqs) (query_text reqs) (hybrid_topK reqs ho) (rows_of w1 n)))
         \<and> tables (snd (hybridSearch E n reqs ho w)) = tables w1
         \<and> db (snd (hybridSearch E n reqs ho w)) = db w1
         \<and> lancedb (snd (hybridSearch E n reqs ho w)) = lancedb w1"
proof -
  let ?v = "dense_vector reqs" and ?t = "query_text reqs" and ?k = "hybrid_topK reqs ho"
  from assms have ok: "t = n" "db w1" "n \<in> dom (tables w1)"
    using openOrCreateTable_ok by blast+
  obtain x w2 where c: "hybrid_cascade E n ?v ?t ?k w1 = (x, w2)"
    by (cases "hybrid_cascade E n ?v ?t ?k w1")
  note fr = hybrid_cascade_frame[OF c]
  show ?thesis
  proof (cases x)
    case (Some rs)
    with c have "rs = hybrid_rows E ?v ?t ?k (rows_of w1 n)"
      by (simp add: hybrid_cascade_rows)
    with assms ok c Some fr show ?thesis
      by (simp add: hybridSearch_def hybrid_row_is_fromRow Let_def)
  next
    case None
    with c have e: "hybrid_rows E ?v ?t ?k (rows_of w1 n) = []"
      "dense_results E ?v ?k (rows_of w1 n) = []"
      using hybrid_cascade_none by blast+
    from fr ok have again: "openOrCreateTable E n [] w2 = (Inr n, called (OpenTable n) w2)"
      by (simp add: openOrCreateTable_again)
    have rw: "rows_of w2 n = rows_of w1 n"
      using fr by (simp add: rows_of_def)
    have k: "search_topK (Some \<lparr>topK = Some ?k\<rparr>) = ?k"
      by (simp add: search_topK_def)
    have r2: "rows_of (called (OpenTable n) w2) n = rows_of w1 n"
      using rw by simp
    note sr = search_result[OF again, of ?v "Some \<lparr>topK = Some ?k\<rparr>", unfolded k r2 e(2)]
    have "fst (search E n ?v (Some \<lparr>topK = Some ?k\<rparr>) w2) = Inr []"
      using sr by simp
    moreover have "tables (snd (search E n ?v (Some \<lparr>topK = Some ?k\<rparr>) w2)) = tables w1"
      using sr fr by simp
    moreover have "db (snd (search E n ?v (Some \<lparr>topK = Some ?k\<rparr>) w2)) = db w1"
      using sr fr by simp
    moreover have "lancedb (snd (search E n ?v (Some \<lparr>topK = Some ?k\<rparr>) w2)) = lancedb w1"
      using sr fr by simp
    ultimately show ?thesis using assms ok c None e
      by (cases "search E n ?v (Some \<lparr>topK = Some ?k\<rparr>) w2")
         (simp add: hybridSearch_def Let_def)
  qed
qed
lemma hybridSearch_error:
  "openOrCreateTable E n [] w = (Inl e, w1) \<Longrightarrow> hybridSearch E n reqs ho w = (Inl e, w1)"
  by (simp add: hybridSearch_def)


lemma createHybridCollection_error:
  "openOrCreateTable E n [] w = (Inl e, w1) \<Longrightarrow> createHybridCollection E n w = (Inl e, w1)"
  by (simp add: createHybridCollection_def)

lemma createHybridCollection_result:
  "openOrCreateTable E n [] w = (Inr t, w1) \<Longrightarrow>
     fst (createHybridCollection E n w) = Inr ()
     \<and> db (snd (createHybridCollection E n w)) = db w1
     \<and> lancedb (snd (createHybridCollection E n w)) = lancedb w1
     \<and> tables (snd (createHybridCollection E n w)) = tables w1"
  by (auto simp: createHybridCollection_def try_createIndex_def Let_def split: prod.splits bool.splits)



lemmas hybrid_run_defs =
  hybridSearch_def hybrid_cascade_def hybrid_topK_def dense_vector_def query_text_def
  is_dense_def is_text_def createHybridCollection_def try_createIndex_def
  fusion_env_def sample_requests_def

lemma hybridSearch_raises_iff:
  "isl (fst (hybridSearch E n reqs ho w)) = isl (fst (openOrCreateTable E n [] w))"
proof (cases "openOrCreateTable E n [] w")
  case (Pair x w1)
  then show ?thesis
    by (cases x) (simp_all add: hybridSearch_error hybridSearch_result)
qed

text \<open>
  When the one-object call shape throws and the optional chain of the second call shape yields
  \<^verbatim>\<open>undefined\<close> (a method is missing), \<^verbatim>\<open>hybridSearch\<close> returns the empty list: the
  dense-only variant is reached only when the second call shape throws.
\<close>

lemma hybridSearch_chain_undefined:
  "fst (hybridSearch (sample_env\<lparr>search_hybrid_chain := \<lambda>v t k rs. NotAnArray\<rparr>) ''code''
          sample_requests None (world1 [chunk ''a'' ''f.ts'' 0])) = Inr []"
  by (simp add: run_defs hybrid_run_defs)

lemma ensureClient_calls:
  "c \<noteq> Import \<Longrightarrow> c \<noteq> Connect \<Longrightarrow>
     count_list (calls (snd (ensureClient E w))) c = count_list (calls w) c"
  by (simp add: ensureClient_def called_def Let_def)

lemma openOrCreateTable_calls:
  "c \<noteq> Import \<Longrightarrow> c \<noteq> Connect \<Longrightarrow> c \<noteq> OpenTable n \<Longrightarrow> c \<noteq> CreateTable n \<Longrightarrow>
     count_list (calls (snd (openOrCreateTable E n rs w))) c = count_list (calls w) c"
  using ensureClient_calls[of c E w]
  by (cases "ensureClient E w") (auto simp: openOrCreateTable_def called_def Let_def split: sum.splits)

lemma hybrid_cascade_calls:
  "count_list (calls (snd (hybrid_cascade E t v txt k w))) (SearchHybridObject t) =
     count_list (calls w) (SearchHybridObject t) + (if has_search E then 1 else 0)"
  "count_list (calls (snd (hybrid_cascade E t v txt k w))) (SearchHybridChain t) =
     count_list (calls w) (SearchHybridChain t)
       + (if has_search E \<and> search_hybrid_object E v txt k (rows_of w t) = Thrown then 1 else 0)"
  by (auto simp: hybrid_cascade_def called_def Let_def split: answer.splits)

lemma search_calls:
  "c \<noteq> Import \<Longrightarrow> c \<noteq> Connect \<Longrightarrow> c \<noteq> OpenTable n \<Longrightarrow> c \<noteq> CreateTable n \<Longrightarrow>
   c \<noteq> SearchDense n \<Longrightarrow>
     count_list (calls (snd (search E n qv opts w))) c = count_list (calls w) c"
  using openOrCreateTable_calls[of c n E "[]" w]
  by (cases "openOrCreateTable E n [] w")
     (auto simp: search_def called_def Let_def split: sum.splits dest: openOrCreateTable_ok)

lemma hybridSearch_calls:
  assumes "openOrCreateTable E n [] w = (Inr t, w1)"
  shows "count_list (calls (snd (hybridSearch E n reqs ho w))) (SearchHybridObject n) =
           count_list (calls w) (SearchHybridObject n) + (if has_search E then 1 else 0)"
    and "count_list (calls (snd (hybridSearch E n reqs ho w))) (SearchHybridChain n) =
           count_list (calls w) (SearchHybridChain n)
             + (if has_search E \<and>
                   search_hybrid_object E (dense_vector reqs) (query_text reqs) (hybrid_topK reqs ho)
                     (rows_of w1 n) = Thrown then 1 else 0)"
proof -
  let ?v = "dense_vector reqs" and ?t = "query_text reqs" and ?k = "hybrid_topK reqs ho"
  from assms have tn: "t = n" using openOrCreateTable_ok by blast
  have o1: "count_list (calls w1) (SearchHybridObject n) = count_list (calls w) (SearchHybridObject n)"
    and o2: "count_list (calls w1) (SearchHybridChain n) = count_list (calls w) (SearchHybridChain n)"
    using openOrCreateTable_calls[of _ n E "[]" w] assms by simp_all
  obtain x w2 where c: "hybrid_cascade E n ?v ?t ?k w1 = (x, w2)"
    by (cases "hybrid_cascade E n ?v ?t ?k w1")
  note hc = hybrid_cascade_calls[of E n ?v ?t ?k w1, unfolded c snd_conv o1 o2]
  have s1: "count_list (calls (snd (search E n ?v opts' w2))) (SearchHybridObject n) =
          count_list (calls w2) (SearchHybridObject n)" for opts'
    by (rule search_calls) simp_all
  have s2: "count_list (calls (snd (search E n ?v opts' w2))) (SearchHybridChain n) =
          count_list (calls w2) (SearchHybridChain n)" for opts'
    by (rule search_calls) simp_all
  have w: "snd (hybridSearch E n reqs ho w) =
      (case x of Some rs \<Rightarrow> w2 | None \<Rightarrow> snd (search E n ?v (Some \<lparr>topK = Some ?k\<rparr>) w2))"
    using assms tn c
    by (auto simp: hybridSearch_def Let_def split: option.splits sum.splits prod.splits)
  show "count_list (calls (snd (hybridSearch E n reqs ho w))) (SearchHybridObject n) =
           count_list (calls w) (SearchHybridObject n) + (if has_search E then 1 else 0)"
    unfolding w using hc(1) s1 by (cases x) simp_all
  show "count_list (calls (snd (hybridSearch E n reqs ho w))) (SearchHybridChain n) =
           count_list (calls w) (SearchHybridChain n)
             + (if has_search E \<and>
                   search_hybrid_object E (dense_vector reqs) (query_text reqs) (hybrid_topK reqs ho)
                     (rows_of w1 n) = Thrown then 1 else 0)"
    unfolding w using hc(2) s2 by (cases x) simp_all
qed





lemma strip_prefix_Some: "strip_prefix p s = Some t \<longleftrightarrow> s = p @ t"
  by (induction p s rule: strip_prefix.induct) auto

lemma skip_spaces:
  "list_all js_space a \<Longrightarrow> \<not> js_space x \<Longrightarrow> dropWhile js_space (a @ x # t) = x # t"
  by (simp add: list_all_iff dropWhile_append2)

lemma spaces_then_rest:
  "dropWhile js_space s = t \<Longrightarrow> \<exists>a. s = a @ t \<and> list_all js_space a"
  by (rule exI[of _ "takeWhile js_space s"]) (auto simp: list_all_iff dest: set_takeWhileD)

lemma not_space [simp]:
  "\<not> js_space CHR ''r''" "\<not> js_space CHR ''=''" "\<not> js_space (CHR 0x22)"
  by (simp_all add: js_space_def)

lemma match_filter_complete:
  assumes "filter_regex s g"
  shows "match_filter s = Some g"
proof -
  from assms obtain a b c d where
    s: "s = a @ ''relativePath'' @ b @ ''=='' @ c @ [CHR 0x22] @ g @ [CHR 0x22] @ d"
    and sp: "list_all js_space a" "list_all js_space b" "list_all js_space c" "list_all js_space d"
    and g: "g \<noteq> []" "list_all js_dot g"
    unfolding filter_regex_def by blast
  let ?s1 = "b @ ''=='' @ c @ [CHR 0x22] @ g @ [CHR 0x22] @ d"
  let ?s2 = "c @ [CHR 0x22] @ g @ [CHR 0x22] @ d"
  let ?s3 = "g @ [CHR 0x22] @ d"
  have 1: "strip_prefix ''relativePath'' (dropWhile js_space s) = Some ?s1"
    unfolding s strip_prefix_Some using skip_spaces[OF sp(1), of "CHR ''r''"] by simp
  have 2: "strip_prefix ''=='' (dropWhile js_space ?s1) = Some ?s2"
    unfolding strip_prefix_Some using skip_spaces[OF sp(2), of "CHR ''=''"] by simp
  have 3: "strip_prefix [CHR 0x22] (dropWhile js_space ?s2) = Some ?s3"
    unfolding strip_prefix_Some using skip_spaces[OF sp(3), of "CHR 0x22"] by simp
  have "list_all js_space (rev d)" using sp(4) by (simp add: list_all_iff)
  from skip_spaces[OF this, of "CHR 0x22" "rev g"]
  have 4: "strip_prefix [CHR 0x22] (dropWhile js_space (rev ?s3)) = Some (rev g)"
    unfolding strip_prefix_Some by simp
  have 5: "rev g \<noteq> []" "list_all js_dot (rev g)"
    using g by (simp_all add: list_all_iff)
  show ?thesis
    unfolding match_filter_def 1 2 3 4 option.case using 5 by simp
qed

lemma match_filter_sound:
  assumes "match_filter s = Some g"
  shows "filter_regex s g"
proof -
  from assms obtain s1 s2 s3 gr where
    1: "strip_prefix ''relativePath'' (dropWhile js_space s) = Some s1"
    and 2: "strip_prefix ''=='' (dropWhile js_space s1) = Some s2"
    and 3: "strip_prefix [CHR 0x22] (dropWhile js_space s2) = Some s3"
    and 4: "strip_prefix [CHR 0x22] (dropWhile js_space (rev s3)) = Some gr"
    and 5: "gr \<noteq> []" "list_all js_dot gr" "g = rev gr"
    unfolding match_filter_def by (auto split: option.splits if_splits)
  from 1 obtain a where a: "s = a @ ''relativePath'' @ s1" "list_all js_space a"
    unfolding strip_prefix_Some using spaces_then_rest by blast
  from 2 obtain b where b: "s1 = b @ ''=='' @ s2" "list_all js_space b"
    unfolding strip_prefix_Some using spaces_then_rest by blast
  from 3 obtain c where c: "s2 = c @ [CHR 0x22] @ s3" "list_all js_space c"
    unfolding strip_prefix_Some using spaces_then_rest by blast
  from 4 obtain dr where d: "rev s3 = dr @ [CHR 0x22] @ gr" "list_all js_space dr"
    unfolding strip_prefix_Some using spaces_then_rest by blast
  from d(1) have "rev (rev s3) = rev (dr @ [CHR 0x22] @ gr)" by (rule arg_cong)
  then have s3: "s3 = g @ [CHR 0x22] @ rev dr" using 5(3) by simp
  have "s = a @ ''relativePath'' @ b @ ''=='' @ c @ [CHR 0x22] @ g @ [CHR 0x22] @ rev dr"
    unfolding a(1) b(1) c(1) s3 by simp
  moreover have "list_all js_space (rev dr)" using d(2) by (simp add: list_all_iff)
  moreover have "g \<noteq> []" "list_all js_dot g" using 5 by (simp_all add: list_all_iff)
  ultimately show ?thesis
    unfolding filter_regex_def using a(2) b(2) c(2) by blast
qed

lemma match_filter_iff: "match_filter s = Some g \<longleftrightarrow> filter_regex s g"
  using match_filter_sound match_filter_complete by blast






text \<open>
  \<^verbatim>\<open>delete\<close> removes exactly the rows whose id is listed when the native delete accepts the
  predicate and removes what it selects, and also on the rewrite path as long as the table holds
  at most 1000000 rows, the scan answers with the stored rows, and dropping and re-creating the
  table succeed.
\<close>

lemma delete_native:
  assumes "ids \<noteq> []" and "openOrCreateTable E n [] w = (Inr t, w1)" and "has_delete E"
    and "table_delete E (\<lambda>r. ids_include ids (get r ''id'')) (rows_of w1 n)
           = Some (filter (\<lambda>r. \<not> ids_include ids (get r ''id'')) (rows_of w1 n))"
  shows "fst (delete E n ids w) = Inr ()
         \<and> rows_of (snd (delete E n ids w)) n
             = filter (\<lambda>r. \<not> ids_include ids (get r ''id'')) (rows_of w1 n)"
proof -
  from assms(2) have "t = n" using openOrCreateTable_ok by blast
  with assms show ?thesis
    by (simp add: delete_def Let_def rows_of_def)
qed

lemma delete_rewrite_small:
  assumes "ids \<noteq> []" and "openOrCreateTable E n [] w = (Inr t, w1)"
    and "\<not> has_delete E" and "has_search E"
    and "search_all E 1000000 (rows_of w1 n) = Rows (take 1000000 (rows_of w1 n))"
    and "has_dropTable E" and "dropTable_ok E"
    and "createTable_ok E n (filter (\<lambda>r. \<not> ids_include ids (get r ''id'')) (rows_of w1 n))"
    and "length (rows_of w1 n) \<le> 1000000"
  shows "fst (delete E n ids w) = Inr ()
         \<and> rows_of (snd (delete E n ids w)) n
             = filter (\<lambda>r. \<not> ids_include ids (get r ''id'')) (rows_of w1 n)"
proof -
  from assms(2) have ok: "t = n" "db w1" using openOrCreateTable_ok by blast+
  have tk: "take 1000000 (rows_of w1 n) = rows_of w1 n"
    using assms(9) by simp
  let ?w2 = "called (SearchAll n 1000000) w1"
  let ?w3 = "(called (DropTable n) ?w2)\<lparr>tables := (tables ?w2)(n := None), fts := fts ?w2 - {n}\<rparr>"
  have dr: "dropCollection E n ?w2 = (Inr (), ?w3)"
    using ok assms(6,7) by (simp add: dropCollection_def ensureClient_connected)
  have "db ?w3" "n \<notin> dom (tables ?w3)" using ok by simp_all
  then have cr: "fst (openOrCreateTable E n rem ?w3) = (if createTable_ok E n rem then Inr n else Inl CreateTableFailed)"
    "createTable_ok E n rem \<Longrightarrow> rows_of (snd (openOrCreateTable E n rem ?w3)) n = rem" for rem
    by (simp_all add: openOrCreateTable_def ensureClient_connected Let_def rows_of_def called_def)
  have "delete E n ids w = delete_rewrite E n ids w1"
    using assms(1,2,3) ok by (simp add: delete_def)
  moreover have "fst (delete_rewrite E n ids w1) = Inr ()
      \<and> rows_of (snd (delete_rewrite E n ids w1)) n
          = filter (\<lambda>r. \<not> ids_include ids (get r ''id'')) (rows_of w1 n)"
    using assms(4,5,8) cr[of "filter (\<lambda>r. \<not> ids_include ids (get r ''id'')) (rows_of w1 n)"]
    by (cases "openOrCreateTable E n (filter (\<lambda>r. \<not> ids_include ids (get r ''id'')) (rows_of w1 n)) ?w3")
       (auto simp: delete_rewrite_def Let_def tk dr split: sum.splits)
  ultimately show ?thesis by simp
qed

section \<open>The claims\<close>

text \<open>
  C1 as stated fails: a table whose row carries the native score 7 (a lexical score, say)
  gives a result with score 7, outside the unit interval.
\<close>

theorem scores_not_normalized:
  "fst (search sample_env ''code'' [1, 0] None (world1 [chunk ''a'' ''f.ts'' 7]))
     = Inr [fromRow sample_env (chunk ''a'' ''f.ts'' 7) 0 [1, 0]]
   \<and> score (fromRow sample_env (chunk ''a'' ''f.ts'' 7) 0 [1, 0]) = 7
   \<and> \<not> score_contract [fromRow sample_env (chunk ''a'' ''f.ts'' 7) 0 [1, 0]]"
  by (simp add: run_defs score_contract_def)

text \<open>
  C1, amended. Every score returned by \<^verbatim>\<open>search\<close> and \<^verbatim>\<open>hybridSearch\<close> is the native
  score of the row it comes from (the row's \<^verbatim>\<open>score\<close> property when it is a number, else
  0), and the results stand in the order in which the backend answered. The adapter neither
  normalizes nor sorts.
\<close>

theorem scores_are_native:
  "(\<forall>rs. fst (search E n qv opts w) = Inr rs \<longrightarrow>
      map score rs =
        map native_score
          (dense_results E qv (search_topK opts) (rows_of (snd (search E n qv opts w)) n)))
   \<and> (\<forall>rs. fst (hybridSearch E n reqs ho w) = Inr rs \<longrightarrow>
        map score rs =
          map native_score
            (hybrid_rows E (dense_vector reqs) (query_text reqs) (hybrid_topK reqs ho)
               (rows_of (snd (hybridSearch E n reqs ho w)) n)))"
proof (intro conjI allI impI)
  fix rs assume a: "fst (search E n qv opts w) = Inr rs"
  obtain x w1 where o: "openOrCreateTable E n [] w = (x, w1)"
    by (cases "openOrCreateTable E n [] w")
  with a obtain t where x: "x = Inr t"
    by (cases x) (simp_all add: search_error)
  note sr = search_result[OF o[unfolded x], of qv opts]
  from sr have "rows_of (snd (search E n qv opts w)) n = rows_of w1 n"
    by (simp add: rows_of_def)
  with sr a show "map score rs =
        map native_score
          (dense_results E qv (search_topK opts) (rows_of (snd (search E n qv opts w)) n))"
    by (auto simp: score_fromRow)
next
  fix rs assume a: "fst (hybridSearch E n reqs ho w) = Inr rs"
  obtain x w1 where o: "openOrCreateTable E n [] w = (x, w1)"
    by (cases "openOrCreateTable E n [] w")
  with a obtain t where x: "x = Inr t"
    by (cases x) (simp_all add: hybridSearch_error)
  note hr = hybridSearch_result[OF o[unfolded x], of reqs ho]
  from hr have "rows_of (snd (hybridSearch E n reqs ho w)) n = rows_of w1 n"
    by (simp add: rows_of_def)
  with hr a show "map score rs =
          map native_score
            (hybrid_rows E (dense_vector reqs) (query_text reqs) (hybrid_topK reqs ho)
               (rows_of (snd (hybridSearch E n reqs ho w)) n))"
    by (auto simp: score_fromRow)
qed

theorem scores_are_native_witness:
  "fst (search sample_env ''code'' [1, 0] None
         (world1 [chunk ''a'' ''f.ts'' (1/5), chunk ''b'' ''g.ts'' 7]))
     = Inr [fromRow sample_env (chunk ''a'' ''f.ts'' (1/5)) 0 [1, 0],
            fromRow sample_env (chunk ''b'' ''g.ts'' 7) 0 [1, 0]]
   \<and> fst (hybridSearch sample_env ''code'' sample_requests None
         (world1 [chunk ''a'' ''f.ts'' (1/5), chunk ''b'' ''g.ts'' 7]))
     = Inr [fromRow sample_env (chunk ''a'' ''f.ts'' (1/5)) 0 [1, 0],
            fromRow sample_env (chunk ''b'' ''g.ts'' 7) 0 [1, 0]]
   \<and> map score [fromRow sample_env (chunk ''a'' ''f.ts'' (1/5)) 0 [1, 0],
                 fromRow sample_env (chunk ''b'' ''g.ts'' 7) 0 [1, 0]] = [1/5, 7]"
proof -
  let ?rows = "[chunk ''a'' ''f.ts'' (1/5), chunk ''b'' ''g.ts'' 7]"
  let ?w = "world1 ?rows"
  let ?res = "[fromRow sample_env (chunk ''a'' ''f.ts'' (1/5)) 0 [1, 0],
               fromRow sample_env (chunk ''b'' ''g.ts'' 7) 0 [1, 0]]"
  have s: "fst (search sample_env ''code'' [1, 0] None ?w) = Inr ?res"
    by (simp add: run_defs)
  have h: "fst (hybridSearch sample_env ''code'' sample_requests None ?w) = Inr ?res"
    by (simp add: run_defs hybrid_run_defs)
  have r: "rows_of (snd (search sample_env ''code'' [1, 0] None ?w)) ''code'' = ?rows"
    by (simp add: run_defs)
  have d: "dense_results sample_env [1, 0] (search_topK None) ?rows = ?rows"
    by (simp add: dense_results_def sample_env_def array_or_empty_def search_topK_def)
  have rh: "rows_of (snd (hybridSearch sample_env ''code'' sample_requests None ?w)) ''code'' = ?rows"
    by (simp add: run_defs hybrid_run_defs)
  have dh: "hybrid_rows sample_env (dense_vector sample_requests) (query_text sample_requests)
              (hybrid_topK sample_requests None) ?rows = ?rows"
    by (simp add: hybrid_rows_def hybrid_run_defs sample_env_def array_or_empty_def)
  have n: "map native_score ?rows = [1/5, 7]"
    by (simp add: native_score_def chunk_def get_def)
  note t = scores_are_native[of sample_env "''code''" "[1, 0]" None ?w sample_requests None]
  from t[THEN conjunct1, rule_format, OF s] have 1: "map score ?res = [1/5, 7]"
    by (simp only: r d n)
  from t[THEN conjunct2, rule_format, OF h] have 2: "map score ?res = [1/5, 7]"
    by (simp only: rh dh n)
  from s h 1 2 show ?thesis by (simp only: simp_thms)
qed

text \<open>
  C9. A row whose \<^verbatim>\<open>metadata\<close> property \<^verbatim>\<open>JSON.parse\<close> rejects is converted to a result
  with the empty object as metadata. Neither \<^verbatim>\<open>search\<close> nor \<^verbatim>\<open>hybridSearch\<close> raises on
  account of it: each raises exactly when opening or creating the table raises.
\<close>

theorem malformed_metadata_yields_empty_object:
  "JSON_parse E (get r ''metadata'') = None \<Longrightarrow>
     metadata (document (fromRow E r s v)) = JObject []
     \<and> isl (fst (search E n qv opts w)) = isl (fst (openOrCreateTable E n [] w))
     \<and> isl (fst (hybridSearch E n reqs ho w)) = isl (fst (openOrCreateTable E n [] w))"
  by (simp add: fromRow_metadata search_raises_iff hybridSearch_raises_iff)

theorem malformed_metadata_witness:
  "JSON_parse sample_env (get [(''id'', JString ''a''), (''metadata'', JString ''{bad'')] ''metadata'') = None
   \<and> metadata (document (fromRow sample_env [(''id'', JString ''a''), (''metadata'', JString ''{bad'')] 0 [1, 0])) = JObject []
   \<and> fst (search sample_env ''code'' [1, 0] None
            (world1 [[(''id'', JString ''a''), (''metadata'', JString ''{bad'')]]))
       = Inr [\<lparr> document = \<lparr> doc_id = JString ''a'', vector = [1, 0], content = JUndefined,
                 relativePath = JUndefined, startLine = JUndefined, endLine = JUndefined,
                 fileExtension = JUndefined, metadata = JObject [] \<rparr>, score = 0 \<rparr>]"
  using malformed_metadata_yields_empty_object
    [of sample_env "[(''id'', JString ''a''), (''metadata'', JString ''{bad'')]" 0 "[1, 0]"
        "''code''" "[1, 0]" None "world1 [[(''id'', JString ''a''), (''metadata'', JString ''{bad'')]]"]
  by (simp add: run_defs)







text \<open>
  C2 as stated fails: there is no capability flag. A backend with native fusion and a backend
  on which both hybrid call shapes throw give the caller the same result list and leave the
  adapter's fields the same; only the calls made on the backend differ.
\<close>

theorem fallback_not_observable:
  "fst (hybridSearch fusion_env ''code'' sample_requests None (world1 [chunk ''a'' ''f.ts'' 0]))
   = fst (hybridSearch sample_env ''code'' sample_requests None (world1 [chunk ''a'' ''f.ts'' 0]))
   \<and> db (snd (hybridSearch fusion_env ''code'' sample_requests None (world1 [chunk ''a'' ''f.ts'' 0])))
     = db (snd (hybridSearch sample_env ''code'' sample_requests None (world1 [chunk ''a'' ''f.ts'' 0])))
   \<and> lancedb (snd (hybridSearch fusion_env ''code'' sample_requests None (world1 [chunk ''a'' ''f.ts'' 0])))
     = lancedb (snd (hybridSearch sample_env ''code'' sample_requests None (world1 [chunk ''a'' ''f.ts'' 0])))
   \<and> calls (snd (hybridSearch fusion_env ''code'' sample_requests None (world1 [chunk ''a'' ''f.ts'' 0])))
     = [OpenTable ''code'', SearchHybridObject ''code'']
   \<and> calls (snd (hybridSearch sample_env ''code'' sample_requests None (world1 [chunk ''a'' ''f.ts'' 0])))
     = [OpenTable ''code'', SearchHybridObject ''code'', SearchHybridChain ''code'',
        SearchDense ''code'']"
  by (simp add: run_defs hybrid_run_defs)

text \<open>
  C2, amended. When both hybrid call shapes throw, \<^verbatim>\<open>hybridSearch\<close> returns what dense-only
  \<^verbatim>\<open>search\<close> returns for the first dense request's vector and the same limit, in the same
  result shape. No flag records it: after the call the adapter's fields are those left by
  opening the table, whichever variant answered.
\<close>

theorem hybrid_falls_back_to_dense:
  "(search_hybrid_object E (dense_vector reqs) (query_text reqs) (hybrid_topK reqs ho)
       (rows_of (snd (openOrCreateTable E n [] w)) n) = Thrown
     \<and> search_hybrid_chain E (dense_vector reqs) (query_text reqs) (hybrid_topK reqs ho)
       (rows_of (snd (openOrCreateTable E n [] w)) n) = Thrown
     \<longrightarrow> fst (hybridSearch E n reqs ho w) =
           fst (search E n (dense_vector reqs) (Some \<lparr>topK = Some (hybrid_topK reqs ho)\<rparr>) w))
   \<and> db (snd (hybridSearch E n reqs ho w)) = db (snd (openOrCreateTable E n [] w))
   \<and> lancedb (snd (hybridSearch E n reqs ho w)) = lancedb (snd (openOrCreateTable E n [] w))"
proof -
  obtain x w1 where o: "openOrCreateTable E n [] w = (x, w1)"
    by (cases "openOrCreateTable E n [] w")
  show ?thesis
  proof (cases x)
    case (Inl e)
    with o show ?thesis
      by (simp add: hybridSearch_error search_error)
  next
    case (Inr t)
    note hr = hybridSearch_result[OF o[unfolded Inr], of reqs ho]
    note sr = search_result[OF o[unfolded Inr], of "dense_vector reqs"
        "Some \<lparr>topK = Some (hybrid_topK reqs ho)\<rparr>"]
    have k: "search_topK (Some \<lparr>topK = Some (hybrid_topK reqs ho)\<rparr>) = hybrid_topK reqs ho"
      by (simp add: search_topK_def)
    from hr sr o show ?thesis
      by (simp add: k hybrid_rows_def dense_results_def)
  qed
qed

theorem hybrid_falls_back_to_dense_witness:
  "search_hybrid_object sample_env [1, 0] ''parse'' 5 [chunk ''a'' ''f.ts'' 0] = Thrown
   \<and> search_hybrid_chain sample_env [1, 0] ''parse'' 5 [chunk ''a'' ''f.ts'' 0] = Thrown
   \<and> fst (hybridSearch sample_env ''code'' sample_requests None (world1 [chunk ''a'' ''f.ts'' 0]))
     = fst (search sample_env ''code'' [1, 0] (Some \<lparr>topK = Some 5\<rparr>)
          (world1 [chunk ''a'' ''f.ts'' 0]))
   \<and> fst (search sample_env ''code'' [1, 0] (Some \<lparr>topK = Some 5\<rparr>)
          (world1 [chunk ''a'' ''f.ts'' 0]))
     = Inr [fromRow sample_env (chunk ''a'' ''f.ts'' 0) 0 [1, 0]]"
proof -
  let ?reqs = "sample_requests"
  let ?w = "world1 [chunk ''a'' ''f.ts'' 0]"
  have v: "dense_vector ?reqs = [1, 0]" "query_text ?reqs = ''parse''" "hybrid_topK ?reqs None = 5"
    by (simp_all add: hybrid_run_defs)
  have a: "search_hybrid_object sample_env (dense_vector ?reqs) (query_text ?reqs) (hybrid_topK ?reqs None)
       (rows_of (snd (openOrCreateTable sample_env ''code'' [] ?w)) ''code'') = Thrown"
    "search_hybrid_chain sample_env (dense_vector ?reqs) (query_text ?reqs) (hybrid_topK ?reqs None)
       (rows_of (snd (openOrCreateTable sample_env ''code'' [] ?w)) ''code'') = Thrown"
    by (simp_all add: sample_env_def)
  note t = hybrid_falls_back_to_dense[of sample_env ?reqs None "''code''" ?w,
      THEN conjunct1, rule_format, OF conjI, OF a]
  have s: "fst (search sample_env ''code'' [1, 0] (Some \<lparr>topK = Some 5\<rparr>) ?w)
     = Inr [fromRow sample_env (chunk ''a'' ''f.ts'' 0) 0 [1, 0]]"
    by (simp add: run_defs)
  have "search_hybrid_object sample_env [1, 0] ''parse'' 5 [chunk ''a'' ''f.ts'' 0] = Thrown"
    "search_hybrid_chain sample_env [1, 0] ''parse'' 5 [chunk ''a'' ''f.ts'' 0] = Thrown"
    by (simp_all add: sample_env_def)
  with t s show ?thesis by (simp only: v simp_thms)
qed

text \<open>
  C4 as stated fails: nothing is determined at creation time and nothing is cached. After
  \<^verbatim>\<open>createHybridCollection\<close>, two \<^verbatim>\<open>hybridSearch\<close> calls on a backend without hybrid search
  each run the whole cascade of call shapes again.
\<close>

theorem probing_repeats_every_call:
  "calls (snd (hybridSearch sample_env ''code'' sample_requests None
           (snd (hybridSearch sample_env ''code'' sample_requests None
              (snd (createHybridCollection sample_env ''code'' world0))))))
   = [Import, Connect, OpenTable ''code'', CreateTable ''code'',
      CreateIndex ''code'' FtsConfig, CreateIndex ''code'' FtsDirect, CreateIndex ''code'' FtsType,
      OpenTable ''code'', SearchHybridObject ''code'', SearchHybridChain ''code'', SearchDense ''code'',
      OpenTable ''code'', SearchHybridObject ''code'', SearchHybridChain ''code'', SearchDense ''code'']"
  by (simp add: run_defs hybrid_run_defs)

text \<open>
  C4, amended. The adapter does not determine at creation time whether the backend supports
  native fusion, and caches no flag: \<^verbatim>\<open>createHybridCollection\<close> leaves the adapter's fields as
  opening the table leaves them. Every \<^verbatim>\<open>hybridSearch\<close> call on a table with a
  \<^verbatim>\<open>search\<close> method tries the one-object call shape once, whatever happened before, and
  tries the chained call shape exactly when the first one throws.
\<close>

theorem hybridSearch_probes_anew:
  "(\<not> isl (fst (openOrCreateTable E n [] w)) \<and> has_search E \<longrightarrow>
      count_list (calls (snd (hybridSearch E n reqs ho w))) (SearchHybridObject n)
        = Suc (count_list (calls w) (SearchHybridObject n))
      \<and> count_list (calls (snd (hybridSearch E n reqs ho w))) (SearchHybridChain n)
        = count_list (calls w) (SearchHybridChain n)
          + (if search_hybrid_object E (dense_vector reqs) (query_text reqs) (hybrid_topK reqs ho)
                 (rows_of (snd (openOrCreateTable E n [] w)) n) = Thrown then 1 else 0))
   \<and> db (snd (createHybridCollection E n w)) = db (snd (openOrCreateTable E n [] w))
   \<and> lancedb (snd (createHybridCollection E n w)) = lancedb (snd (openOrCreateTable E n [] w))"
proof -
  obtain x w1 where o: "openOrCreateTable E n [] w = (x, w1)"
    by (cases "openOrCreateTable E n [] w")
  show ?thesis
  proof (cases x)
    case (Inl e)
    with o show ?thesis by (simp add: createHybridCollection_error)
  next
    case (Inr t)
    with o have o': "openOrCreateTable E n [] w = (Inr t, w1)" by simp
    from hybridSearch_calls[OF o', of reqs ho] createHybridCollection_result[OF o'] o'
    show ?thesis by simp
  qed
qed

theorem hybridSearch_probes_anew_witness:
  "\<not> isl (fst (openOrCreateTable sample_env ''code'' [] (world1 [chunk ''a'' ''f.ts'' 0])))
   \<and> has_search sample_env
   \<and> count_list (calls (world1 [chunk ''a'' ''f.ts'' 0])) (SearchHybridObject ''code'') = 0
   \<and> count_list (calls (snd (hybridSearch sample_env ''code'' sample_requests None
                               (world1 [chunk ''a'' ''f.ts'' 0])))) (SearchHybridObject ''code'') = 1"
proof -
  let ?w = "world1 [chunk ''a'' ''f.ts'' 0]"
  have p: "\<not> isl (fst (openOrCreateTable sample_env ''code'' [] ?w))" "has_search sample_env"
    by (simp_all add: run_defs)
  have z: "count_list (calls ?w) (SearchHybridObject ''code'') = 0"
    by (simp add: world1_def)
  note t = hybridSearch_probes_anew[of sample_env "''code''" ?w sample_requests None,
      THEN conjunct1, rule_format, OF conjI, OF p, THEN conjunct1]
  from t p z show ?thesis by simp
qed








text \<open>
  C3. The rewrite path of \<^verbatim>\<open>delete\<close> reads the table through
  \<^verbatim>\<open>table.search().limit(1000000).toArray()\<close>, drops the table and re-creates it from the rows it
  read. On a table of 1000001 rows and a backend without native delete, deleting the id \<open>x\<close> of
  the first row also loses the last row, whose id \<open>b\<close> is not in the list: rows beyond the first
  million are never read and so never written back.
\<close>

theorem delete_rewrite_loses_rows:
  "fst (delete sample_env ''code'' [''x'']
         (world1 (chunk ''x'' ''e.ts'' 0 # replicate 999999 (chunk ''a'' ''f.ts'' 0)
                    @ [chunk ''b'' ''g.ts'' 0]))) = Inr ()
   \<and> rows_of (snd (delete sample_env ''code'' [''x'']
         (world1 (chunk ''x'' ''e.ts'' 0 # replicate 999999 (chunk ''a'' ''f.ts'' 0)
                    @ [chunk ''b'' ''g.ts'' 0])))) ''code''
       = replicate 999999 (chunk ''a'' ''f.ts'' 0)
   \<and> \<not> ids_include [''x''] (get (chunk ''b'' ''g.ts'' 0) ''id'')"
proof -
  let ?a = "chunk ''a'' ''f.ts'' 0" and ?b = "chunk ''b'' ''g.ts'' 0" and ?x = "chunk ''x'' ''e.ts'' 0"
  have ia: "\<not> ids_include [''x''] (get ?a ''id'')" and ib: "\<not> ids_include [''x''] (get ?b ''id'')"
    and ix: "ids_include [''x''] (get ?x ''id'')"
    by (simp_all add: ids_include_def chunk_def get_def)
  have tk: "take 1000000 (?x # replicate 999999 ?a @ [?b]) = ?x # replicate 999999 ?a"
    by simp
  have d: "delete sample_env ''code'' [''x''] (world1 (?x # replicate 999999 ?a @ [?b]))
     = (Inr (), \<lparr> db = True, lancedb = True, tables = [''code'' \<mapsto> replicate 999999 ?a], fts = {},
          calls = [OpenTable ''code'', SearchAll ''code'' 1000000, DropTable ''code'',
                   OpenTable ''code'', CreateTable ''code''] \<rparr>)"
    by (simp add: delete_def delete_rewrite_def dropCollection_def openOrCreateTable_def
        ensureClient_def called_def world1_def sample_env_def rows_of_def Let_def tk ia ix)
  show ?thesis unfolding d using ib by (simp add: rows_of_def)
qed

end
